theory Spec2Isabelle
  imports Complex_Main
begin

section \<open>The Hi-C heatmap view of src/app.jsx\<close>

text \<open>
  The component \<^verbatim>\<open>HiCHeatmapView\<close> keeps its state in React hooks and changes it
  from event handlers, effects and the callbacks of its fetches. The model is a record of
  that state and one function per handler, effect or callback, each returning the updated
  record. JavaScript numbers are modelled as reals with exact arithmetic; \<^verbatim>\<open>null\<close> and
  \<^verbatim>\<open>undefined\<close> are \<open>None\<close>. The fetches a handler issues are appended to the
  field \<open>requests\<close>, the only part of the record that is not React state.
\<close>

subsection \<open>State\<close>

text \<open>A matrix cell is a number or \<^verbatim>\<open>null\<close>; a matrix is an array of rows.\<close>

type_synonym cell = "real option"
type_synonym matrix = "cell list list"

record tile_coords =
  zoom :: int
  tile_x :: int
  tile_y :: int

text \<open>The d3 zoom transform: scale \<open>k\<close> and translation \<open>(x, y)\<close>.\<close>

record zoom_transform =
  tr_k :: real
  tr_x :: real
  tr_y :: real

record tad =
  tad_start :: real
  tad_end :: real

record compartment =
  comp_start :: real
  comp_end :: real
  comp_E1 :: real

datatype status = Idle | Fetching | Rendered | Error

text \<open>
  A request as the code builds it: the tile URL holds zoom, x and y; the annotation requests
  hold the region bounds (\<open>None\<close> when the resolution lookup gave \<^verbatim>\<open>undefined\<close>) and,
  for TADs, the detection method.
\<close>

datatype request =
  TileRequest int int int
  | TadsRequest "real option" "real option" string
  | CompartmentsRequest "real option" "real option"

record view_state =
  error :: "string option"
  status :: status
  tads :: "tad list option"
  compartments :: "compartment list option"
  matrixData :: "matrix option"
  tileCoords :: tile_coords
  transform :: zoom_transform
  tadMethod :: string
  requests :: "request list"

definition zoomIdentity :: zoom_transform where
  "zoomIdentity = \<lparr>tr_k = 1, tr_x = 0, tr_y = 0\<rparr>"

text \<open>The initial values of the \<^verbatim>\<open>useState\<close> hooks (lines 194-202).\<close>

definition initial_state :: view_state where
  "initial_state =
     \<lparr>error = None, status = Idle, tads = None, compartments = None, matrixData = None,
      tileCoords = \<lparr>zoom = 0, tile_x = 0, tile_y = 0\<rparr>, transform = zoomIdentity,
      tadMethod = ''insulation'', requests = []\<rparr>"

subsection \<open>Resolution ladder\<close>

definition resolutions :: "real list" where
  "resolutions =
     [10000, 20000, 40000, 80000, 160000, 320000, 640000, 1280000, 2560000, 5120000]"

text \<open>Indexing the array literal outside \<open>0..9\<close> gives \<^verbatim>\<open>undefined\<close>.\<close>

definition resolution :: "int \<Rightarrow> real option" where
  "resolution z = (if 0 \<le> z \<and> z < 10 then Some (resolutions ! nat z) else None)"

subsection \<open>Tile fetch (the effect of lines 245-257)\<close>

text \<open>
  The body of the effect that depends on \<^verbatim>\<open>tileCoords\<close>: four state updates and one
  fetch for the current address.
\<close>

definition tileEffect :: "view_state \<Rightarrow> view_state" where
  "tileEffect s =
     s\<lparr>status := Fetching, error := None, tads := None, compartments := None,
       requests := requests s @
         [TileRequest (zoom (tileCoords s)) (tile_x (tileCoords s)) (tile_y (tileCoords s))]\<rparr>"

text \<open>
  How a tile fetch settles: the fetch rejects, the body is not JSON (\<^verbatim>\<open>res.json()\<close>
  rejects), the body is the JSON value \<^verbatim>\<open>null\<close> (reading \<^verbatim>\<open>tileData.data\<close> throws),
  or the body is any other JSON value, given by its \<^verbatim>\<open>data\<close> field (\<open>None\<close> when the
  field is missing or \<^verbatim>\<open>null\<close>).
\<close>

datatype tile_response =
  TileNetworkError
  | TileBodyNotJson
  | TileJsonNull
  | TileJson "matrix option"

text \<open>The \<^verbatim>\<open>.then\<close> callback of lines 252-255 and the \<^verbatim>\<open>.catch\<close> of line 256.\<close>

definition tileThen :: "matrix option \<Rightarrow> view_state \<Rightarrow> view_state" where
  "tileThen d s = s\<lparr>matrixData := d, status := Rendered\<rparr>"

definition tileCatch :: "view_state \<Rightarrow> view_state" where
  "tileCatch s = s\<lparr>error := Some ''Could not connect to the backend server.''\<rparr>"

fun tileSettled :: "tile_response \<Rightarrow> view_state \<Rightarrow> view_state" where
  "tileSettled TileNetworkError s = tileCatch s"
| "tileSettled TileBodyNotJson s = tileCatch s"
| "tileSettled TileJsonNull s = tileCatch s"
| "tileSettled (TileJson d) s = tileThen d s"

subsection \<open>Library functions\<close>

text \<open>
  The component calls four functions that are not code of this repository: d3's
  \<^verbatim>\<open>format\<close> (a specifier gives a formatter), \<^verbatim>\<open>Number.prototype.toFixed\<close>, d3's
  \<^verbatim>\<open>quantile\<close> (\<^verbatim>\<open>undefined\<close>, here \<open>None\<close>, on an empty array) and \<^verbatim>\<open>Math.log2\<close>,
  whose result on a double is the language implementation's approximation of the
  logarithm. The model takes them as parameters.
\<close>

record js_lib =
  d3_format :: "string \<Rightarrow> real \<Rightarrow> string"
  toFixed :: "real \<Rightarrow> nat \<Rightarrow> string"
  d3_quantile :: "real list \<Rightarrow> real \<Rightarrow> real option"
  math_log2 :: "real \<Rightarrow> real"

subsection \<open>Zoom handler (lines 345-353)\<close>

text \<open>
  \<^verbatim>\<open>Math.min(9, Math.max(0, Math.floor(Math.log2(k))))\<close>. The scale \<open>k\<close> of an event lies
  in the scale extent \<open>[1, 64]\<close> of line 346, where \<^verbatim>\<open>Math.log2\<close> is a finite number.
\<close>

definition newZoomLevel :: "js_lib \<Rightarrow> real \<Rightarrow> int" where
  "newZoomLevel lib k = min 9 (max 0 \<lfloor>math_log2 lib k\<rfloor>)"

text \<open>
  The listener is a closure: the \<^verbatim>\<open>tileCoords.zoom\<close> of line 349 is the value the
  component had when the listener was registered. The effect of lines 341-413 registers a
  new listener after every render that changed one of its dependencies, but d3 keeps
  dispatching a gesture that is under way to the listener it started with, so the captured
  zoom can be older than the stored one. It is an argument of the handler.
\<close>

definition onZoom :: "js_lib \<Rightarrow> int \<Rightarrow> zoom_transform \<Rightarrow> view_state \<Rightarrow> view_state" where
  "onZoom lib capturedZoom t s =
     (let lvl = newZoomLevel lib (tr_k t);
          s1 = (if lvl \<noteq> capturedZoom
                then s\<lparr>tileCoords := \<lparr>zoom = lvl, tile_x = 0, tile_y = 0\<rparr>\<rparr>
                else s)
      in s1\<lparr>transform := t\<rparr>)"

text \<open>
  A zoom event followed by the render it causes. Every call of \<^verbatim>\<open>setTileCoords\<close> stores
  a new object, which is never identical to the old one, so the tile effect (dependency
  \<^verbatim>\<open>[tileCoords]\<close>, line 257) runs exactly when the handler made that call, also when the
  address it stored equals the one stored before.
\<close>

definition zoomEvent :: "js_lib \<Rightarrow> int \<Rightarrow> zoom_transform \<Rightarrow> view_state \<Rightarrow> view_state" where
  "zoomEvent lib capturedZoom t s =
     (let s' = onZoom lib capturedZoom t s
      in if newZoomLevel lib (tr_k t) \<noteq> capturedZoom then tileEffect s' else s')"

subsection \<open>Annotation fetchers (lines 204-243)\<close>

text \<open>
  The bounds of the region string \<^verbatim>\<open>chr2:start-end\<close>; both are \<^verbatim>\<open>NaN\<close> (here
  \<open>None\<close>) when the resolution is \<^verbatim>\<open>undefined\<close>.
\<close>

definition regionStart :: "tile_coords \<Rightarrow> real option" where
  "regionStart c = map_option (\<lambda>r. real_of_int (tile_x c) * 256 * r) (resolution (zoom c))"

definition regionEnd :: "tile_coords \<Rightarrow> real option" where
  "regionEnd c = map_option (\<lambda>r. (real_of_int (tile_x c) + 1) * 256 * r) (resolution (zoom c))"

definition handleFindTADs :: "view_state \<Rightarrow> view_state" where
  "handleFindTADs s =
     s\<lparr>requests := requests s @
        [TadsRequest (regionStart (tileCoords s)) (regionEnd (tileCoords s)) (tadMethod s)]\<rparr>"

definition handleFindCompartments :: "view_state \<Rightarrow> view_state" where
  "handleFindCompartments s =
     s\<lparr>requests := requests s @
        [CompartmentsRequest (regionStart (tileCoords s)) (regionEnd (tileCoords s))]\<rparr>"

text \<open>
  How an annotation fetch settles: the fetch rejects, the body is not JSON, the body is
  \<^verbatim>\<open>null\<close> (reading \<^verbatim>\<open>data.error\<close> throws), the body is an object with a truthy
  \<^verbatim>\<open>error\<close> field (the callback throws), or the body is an array of items.
\<close>

datatype 'a annotation_response =
  AnnotNetworkError
  | AnnotBodyNotJson
  | AnnotJsonNull
  | AnnotErrorField
  | AnnotItems "'a list"

definition tadsThen :: "tad list \<Rightarrow> view_state \<Rightarrow> view_state" where
  "tadsThen d s = s\<lparr>tads := Some d\<rparr>"

definition tadsCatch :: "view_state \<Rightarrow> view_state" where
  "tadsCatch s = s\<lparr>error := Some ''Failed to fetch TADs.''\<rparr>"

fun tadsSettled :: "tad annotation_response \<Rightarrow> view_state \<Rightarrow> view_state" where
  "tadsSettled (AnnotItems d) s = tadsThen d s"
| "tadsSettled r s = tadsCatch s"

definition compartmentsThen :: "compartment list \<Rightarrow> view_state \<Rightarrow> view_state" where
  "compartmentsThen d s = s\<lparr>compartments := Some d\<rparr>"

definition compartmentsCatch :: "view_state \<Rightarrow> view_state" where
  "compartmentsCatch s = s\<lparr>error := Some ''Failed to fetch A/B compartments.''\<rparr>"

fun compartmentsSettled ::
  "compartment annotation_response \<Rightarrow> view_state \<Rightarrow> view_state" where
  "compartmentsSettled (AnnotItems d) s = compartmentsThen d s"
| "compartmentsSettled r s = compartmentsCatch s"

text \<open>An annotation fetch has failed when its promise chain ends in the catch.\<close>

fun annotFailed :: "'a annotation_response \<Rightarrow> bool" where
  "annotFailed (AnnotItems d) = False"
| "annotFailed r = True"

subsection \<open>Events\<close>

text \<open>
  The single UI thread handles one event at a time. \<open>ZoomTo c t\<close> is a zoom event with
  transform \<open>t\<close>, handled by a listener that captured the zoom \<open>c\<close>. \<open>TileArrives a r\<close> is
  the moment the fetch issued for address \<open>a\<close> settles with \<open>r\<close>; the callbacks of lines
  252-256 do not look at \<open>a\<close>.
\<close>

datatype event =
  Mount
  | ZoomTo int zoom_transform
  | TileArrives tile_coords tile_response
  | FindTADs
  | TadsArrive "tad annotation_response"
  | FindCompartments
  | CompartmentsArrive "compartment annotation_response"

fun step :: "js_lib \<Rightarrow> event \<Rightarrow> view_state \<Rightarrow> view_state" where
  "step lib Mount s = tileEffect s"
| "step lib (ZoomTo c t) s = zoomEvent lib c t s"
| "step lib (TileArrives a r) s = tileSettled r s"
| "step lib FindTADs s = handleFindTADs s"
| "step lib (TadsArrive r) s = tadsSettled r s"
| "step lib FindCompartments s = handleFindCompartments s"
| "step lib (CompartmentsArrive r) s = compartmentsSettled r s"

fun run :: "js_lib \<Rightarrow> event list \<Rightarrow> view_state \<Rightarrow> view_state" where
  "run lib [] s = s"
| "run lib (e # es) s = run lib es (step lib e s)"

text \<open>
  What holds of the address in every state the component can reach: the zoom is an index
  of the resolution ladder, and x and y are 0.
\<close>

definition addressOk :: "view_state \<Rightarrow> bool" where
  "addressOk s \<longleftrightarrow>
     0 \<le> zoom (tileCoords s) \<and> zoom (tileCoords s) \<le> 9 \<and>
     tile_x (tileCoords s) = 0 \<and> tile_y (tileCoords s) = 0"

subsection \<open>Matrix renderer (the effect of lines 259-339, canvas part)\<close>

text \<open>
  \<^verbatim>\<open>matrixData.flat().filter(v => v > 0)\<close>: the comparison is false on \<^verbatim>\<open>null\<close>.
\<close>

definition positiveValues :: "matrix \<Rightarrow> real list" where
  "positiveValues m = [v. Some v \<leftarrow> concat m, v > 0]"

text \<open>
  The domain of the colour scale, \<^verbatim>\<open>[0, d3.quantile(..., 0.95) || 1]\<close>: the right operand
  is taken when the quantile is \<^verbatim>\<open>undefined\<close> or \<open>0\<close>.
\<close>

definition colorDomain :: "js_lib \<Rightarrow> matrix \<Rightarrow> real \<times> real" where
  "colorDomain lib m =
     (0, case d3_quantile lib (positiveValues m) (95 / 100) of
           None \<Rightarrow> 1
         | Some u \<Rightarrow> if u = 0 then 1 else u)"

text \<open>
  \<^verbatim>\<open>matrixData[i][j]\<close> for a row index in range: \<open>None\<close> is \<^verbatim>\<open>undefined\<close> (the row is
  shorter), \<open>Some None\<close> is \<^verbatim>\<open>null\<close>.
\<close>

definition cellAt :: "matrix \<Rightarrow> nat \<Rightarrow> nat \<Rightarrow> cell option" where
  "cellAt m i j = (if j < length (m ! i) then Some (m ! i ! j) else None)"

text \<open>
  What the effect does to the canvas context. \<open>FillRect c x y w h\<close> is the pair of
  statements that set \<^verbatim>\<open>fillStyle\<close> and call \<^verbatim>\<open>fillRect\<close>; the fill style is the colour
  the scale with domain \<open>[lo, hi]\<close> gives to a value.
\<close>

datatype fill_style = ScaleColor real real real

datatype draw =
  ClearRect real real real real
  | Save
  | Translate real real
  | Scale real real
  | FillRect fill_style real real real real
  | StrokeStyle string
  | LineWidth real
  | StrokeRect real real real real
  | Restore

definition paintCell :: "real \<times> real \<Rightarrow> real \<Rightarrow> matrix \<Rightarrow> nat \<Rightarrow> nat \<Rightarrow> draw list" where
  "paintCell color pixelSize m i j =
     (case cellAt m i j of
        Some (Some v) \<Rightarrow>
          if v > 0
          then [FillRect (ScaleColor (fst color) (snd color) v)
                  (real j * pixelSize) (real i * pixelSize) pixelSize pixelSize]
          else []
      | _ \<Rightarrow> [])"

definition paintCells :: "real \<times> real \<Rightarrow> real \<Rightarrow> matrix \<Rightarrow> draw list" where
  "paintCells color pixelSize m =
     concat (map (\<lambda>i. concat (map (\<lambda>j. paintCell color pixelSize m i j) [0..<length m]))
       [0..<length m])"

text \<open>The pixel position and size of a TAD (lines 297-299 and 372-373).\<close>

definition tadX :: "real \<Rightarrow> real \<Rightarrow> real \<Rightarrow> tad \<Rightarrow> real" where
  "tadX viewStart res pixelSize t = ((tad_start t - viewStart) / res) * pixelSize"

definition tadSize :: "real \<Rightarrow> real \<Rightarrow> tad \<Rightarrow> real" where
  "tadSize res pixelSize t = ((tad_end t - tad_start t) / res) * pixelSize"

text \<open>The body of the \<^verbatim>\<open>forEach\<close> of lines 296-303.\<close>

definition strokeTad :: "real \<Rightarrow> real \<Rightarrow> real \<Rightarrow> real \<Rightarrow> tad \<Rightarrow> draw list" where
  "strokeTad canvasSize viewStart res pixelSize t =
     (let x = tadX viewStart res pixelSize t;
          y = x;
          sz = tadSize res pixelSize t
      in if x \<ge> 0 \<and> x + sz \<le> canvasSize then [StrokeRect x y sz sz] else [])"

text \<open>
  With an \<^verbatim>\<open>undefined\<close> resolution every position is \<^verbatim>\<open>NaN\<close>, the test of line 300 is
  false and nothing is stroked.
\<close>

definition strokeTads :: "real \<Rightarrow> tile_coords \<Rightarrow> real \<Rightarrow> tad list \<Rightarrow> draw list" where
  "strokeTads canvasSize c pixelSize ts =
     (case resolution (zoom c) of
        None \<Rightarrow> []
      | Some res \<Rightarrow>
          concat (map (strokeTad canvasSize (real_of_int (tile_x c) * 256 * res) res pixelSize) ts))"

text \<open>
  The effect, given the observed container width (\<open>None\<close> before the first measurement).
  \<open>None\<close> is the early return of line 260, before the canvas is touched. The scale \<open>k\<close>
  of a transform is never \<open>0\<close>: d3 keeps it within the scale extent \<open>[1, 64]\<close>.
\<close>

definition render :: "js_lib \<Rightarrow> real option \<Rightarrow> view_state \<Rightarrow> draw list option" where
  "render lib dimensions s =
     (case matrixData s of
        None \<Rightarrow> None
      | Some m \<Rightarrow>
          (case dimensions of
             None \<Rightarrow> None
           | Some width \<Rightarrow>
               (let canvasSize = width - 50;
                    t = transform s;
                    pre = [ClearRect 0 0 canvasSize canvasSize, Save,
                           Translate (tr_x t) (tr_y t), Scale (tr_k t) (tr_k t)];
                    numBins = length m
                in if numBins = 0 then Some (pre @ [Restore])
                   else
                     (let pixelSize = canvasSize / real numBins;
                          color = colorDomain lib m
                      in Some (pre @ paintCells color pixelSize m @
                           (case tads s of
                              None \<Rightarrow> []
                            | Some ts \<Rightarrow>
                                [StrokeStyle ''rgba(0, 0, 255, 0.7)'', LineWidth (2 / tr_k t)] @
                                strokeTads canvasSize (tileCoords s) pixelSize ts) @
                           [Restore])))))"

text \<open>The tick format of both axes (lines 315-316).\<close>

definition axisTickFormat :: "js_lib \<Rightarrow> real \<Rightarrow> string" where
  "axisTickFormat lib v = d3_format lib ''.2s'' v"

subsection \<open>Overlay hit-tester (\<^verbatim>\<open>handleMouseMove\<close>, lines 357-401)\<close>

record mouse_event =
  clientX :: real
  clientY :: real
  pageX :: real
  pageY :: real

text \<open>The canvas as the handler reads it: its width attribute and its bounding rectangle.\<close>

record canvas =
  cv_width :: real
  cv_left :: real
  cv_top :: real

text \<open>
  The argument of \<^verbatim>\<open>setTooltip\<close>: an object with \<^verbatim>\<open>visible: true\<close>, content and page
  position, or the object \<^verbatim>\<open>{visible: false}\<close>.
\<close>

datatype tooltip = Visible string real real | Hidden

text \<open>
  What one call of the handler does: it returns before any update, it calls
  \<^verbatim>\<open>setTooltip\<close> once, or it throws (\<^verbatim>\<open>toFixed\<close> of \<^verbatim>\<open>undefined\<close>).
\<close>

datatype outcome = NoUpdate | SetTooltip tooltip | TypeError

text \<open>
  d3's \<^verbatim>\<open>transform.invert\<close>. With \<open>k = 0\<close> the quotients are not finite numbers
  (\<open>None\<close>): every comparison of the handler is then false.
\<close>

definition invert :: "zoom_transform \<Rightarrow> real \<times> real \<Rightarrow> (real \<times> real) option" where
  "invert t p =
     (if tr_k t = 0 then None
      else Some ((fst p - tr_x t) / tr_k t, (snd p - tr_y t) / tr_k t))"

text \<open>The containment test of lines 376-377.\<close>

definition tadContains :: "real \<Rightarrow> real \<Rightarrow> real \<Rightarrow> real \<times> real \<Rightarrow> tad \<Rightarrow> bool" where
  "tadContains viewStart res pixelSize inverted t =
     (let tadX_px = tadX viewStart res pixelSize t;
          tadSize_px = tadSize res pixelSize t
      in fst inverted \<ge> tadX_px \<and> fst inverted \<le> tadX_px + tadSize_px \<and>
         snd inverted \<ge> tadX_px \<and> snd inverted \<le> tadX_px + tadSize_px)"

text \<open>The loop of lines 371-383 returns at the first TAD that contains the pointer.\<close>

fun tadLoop :: "(tad \<Rightarrow> bool) \<Rightarrow> tad list \<Rightarrow> tad option" where
  "tadLoop inside [] = None"
| "tadLoop inside (t # ts) = (if inside t then Some t else tadLoop inside ts)"

definition tadTooltipContent :: "js_lib \<Rightarrow> tad \<Rightarrow> string" where
  "tadTooltipContent lib t =
     ''TAD: '' @ d3_format lib ''.3s'' (tad_start t) @ '' - '' @ d3_format lib ''.3s'' (tad_end t)"

text \<open>
  The TAD a pointer at tile-pixel position \<open>inverted\<close> hits: none when no TADs are
  loaded, and none when the resolution is \<^verbatim>\<open>undefined\<close> (every bound is \<^verbatim>\<open>NaN\<close>).
\<close>

definition tadHit :: "view_state \<Rightarrow> real \<Rightarrow> real \<times> real \<Rightarrow> tad option" where
  "tadHit s pixelSize inverted =
     (case tads s of
        None \<Rightarrow> None
      | Some ts \<Rightarrow>
          (case resolution (zoom (tileCoords s)) of
             None \<Rightarrow> None
           | Some res \<Rightarrow>
               tadLoop
                 (tadContains (real_of_int (tile_x (tileCoords s)) * 256 * res) res pixelSize
                    inverted) ts))"

text \<open>
  The fallback of lines 388-400. A pixel size of \<open>0\<close> makes both quotients infinite or
  \<^verbatim>\<open>NaN\<close>, which fails the bounds test.
\<close>

definition cellTooltip :: "js_lib \<Rightarrow> matrix \<Rightarrow> real \<Rightarrow> real \<times> real \<Rightarrow> mouse_event \<Rightarrow> outcome" where
  "cellTooltip lib m pixelSize inverted ev =
     (if pixelSize = 0 then SetTooltip Hidden
      else
        (let i = \<lfloor>snd inverted / pixelSize\<rfloor>;
             j = \<lfloor>fst inverted / pixelSize\<rfloor>;
             numBins = int (length m)
         in if i \<ge> 0 \<and> i < numBins \<and> j \<ge> 0 \<and> j < numBins
            then (case cellAt m (nat i) (nat j) of
                    None \<Rightarrow> TypeError
                  | Some None \<Rightarrow> SetTooltip Hidden
                  | Some (Some v) \<Rightarrow>
                      SetTooltip (Visible (''Score: '' @ toFixed lib v 2) (pageX ev) (pageY ev)))
            else SetTooltip Hidden))"

definition handleMouseMove :: "js_lib \<Rightarrow> canvas \<Rightarrow> mouse_event \<Rightarrow> view_state \<Rightarrow> outcome" where
  "handleMouseMove lib cv ev s =
     (case matrixData s of
        None \<Rightarrow> NoUpdate
      | Some m \<Rightarrow>
          if length m = 0 then NoUpdate
          else
            (let mouseX = clientX ev - cv_left cv;
                 mouseY = clientY ev - cv_top cv;
                 pixelSize = cv_width cv / real (length m)
             in case invert (transform s) (mouseX, mouseY) of
                  None \<Rightarrow> SetTooltip Hidden
                | Some inverted \<Rightarrow>
                    (case tadHit s pixelSize inverted of
                       Some t \<Rightarrow>
                         SetTooltip (Visible (tadTooltipContent lib t) (pageX ev) (pageY ev))
                     | None \<Rightarrow> cellTooltip lib m pixelSize inverted ev)))"

subsection \<open>A reference instance of the library functions\<close>

text \<open>
  For evaluating the handlers on concrete inputs: the library functions as their
  documentation gives them, in exact arithmetic. The decimal digits of a natural number:
\<close>

fun digits :: "nat \<Rightarrow> string" where
  "digits n =
     (if n < 10 then [''0123456789'' ! n]
      else digits (n div 10) @ [''0123456789'' ! (n mod 10)])"

declare digits.simps [simp del]

text \<open>
  d3's SI-prefix format \<^verbatim>\<open>.<p>s\<close> on a natural number: the value rounded to \<open>p\<close>
  significant digits (half up), the decimal point placed for the prefix of its power of 1000.
\<close>

definition siCoefficient :: "nat \<Rightarrow> nat \<Rightarrow> nat \<times> nat" where
  "siCoefficient p v =
     (if v = 0 then (0, 0)
      else
        (let e = length (digits v) - 1;
             n = (if e + 1 \<ge> p
                  then (v + 10 ^ (e + 1 - p) div 2) div 10 ^ (e + 1 - p)
                  else v * 10 ^ (p - (e + 1)))
         in if n \<ge> 10 ^ p then (n div 10, e + 1) else (n, e)))"

definition siPrefixes :: "string list" where
  "siPrefixes = [[], ''k'', ''M'', ''G'', ''T'', ''P'', ''E'', ''Z'', ''Y'']"

definition siFormat :: "nat \<Rightarrow> nat \<Rightarrow> string" where
  "siFormat p v =
     (let (n, e) = siCoefficient p v;
          coefficient = replicate (p - length (digits n)) (CHR ''0'') @ digits n;
          prefixExponent = min 8 (e div 3);
          i = e - 3 * prefixExponent + 1
      in (if i = p then coefficient
          else if i > p then coefficient @ replicate (i - p) (CHR ''0'')
          else take i coefficient @ ''.'' @ drop i coefficient)
         @ siPrefixes ! prefixExponent)"

text \<open>
  \<^verbatim>\<open>toFixed\<close>: the nearest multiple of the \<open>f\<close>-th decimal place (the larger of two),
  printed with \<open>f\<close> decimals.
\<close>

definition toFixedNonneg :: "real \<Rightarrow> nat \<Rightarrow> string" where
  "toFixedNonneg v f =
     (let n = nat \<lfloor>v * 10 ^ f + 1 / 2\<rfloor>;
          frac = digits (n mod 10 ^ f)
      in digits (n div 10 ^ f) @
         (if f = 0 then [] else ''.'' @ replicate (f - length frac) (CHR ''0'') @ frac))"

definition toFixedRef :: "real \<Rightarrow> nat \<Rightarrow> string" where
  "toFixedRef v f = (if v < 0 then ''-'' @ toFixedNonneg (- v) f else toFixedNonneg v f)"

text \<open>d3's quantile (method R-7) on the sorted values.\<close>

definition quantileRef :: "real list \<Rightarrow> real \<Rightarrow> real option" where
  "quantileRef vs p =
     (let xs = sort vs; n = length xs
      in if n = 0 then None
         else if p \<le> 0 \<or> n < 2 then Some (hd xs)
         else if p \<ge> 1 then Some (last xs)
         else
           (let i = real (n - 1) * p;
                i0 = nat \<lfloor>i\<rfloor>;
                value0 = xs ! i0;
                value1 = xs ! (i0 + 1)
            in Some (value0 + (value1 - value0) * (i - real i0))))"

text \<open>
  The reference formatter knows the two specifiers the component uses and agrees with d3
  on natural numbers, the only arguments the examples give it.
\<close>

definition formatRef :: "string \<Rightarrow> real \<Rightarrow> string" where
  "formatRef specifier v =
     (if specifier = ''.3s'' then siFormat 3 (nat \<lfloor>v\<rfloor>)
      else if specifier = ''.2s'' then siFormat 2 (nat \<lfloor>v\<rfloor>)
      else [])"

text \<open>The reference logarithm is the real one, exact at the powers of two.\<close>

definition refLib :: js_lib where
  "refLib =
     \<lparr>d3_format = formatRef, toFixed = toFixedRef, d3_quantile = quantileRef,
      math_log2 = log 2\<rparr>"


subsection \<open>Example inputs\<close>

definition addrA :: tile_coords where
  "addrA = \<lparr>zoom = 0, tile_x = 0, tile_y = 0\<rparr>"

definition addrB :: tile_coords where
  "addrB = \<lparr>zoom = 1, tile_x = 0, tile_y = 0\<rparr>"

definition matrixA :: matrix where
  "matrixA = [[Some 1]]"

definition matrixB :: matrix where
  "matrixB = [[Some 2]]"

definition zoomTwice :: zoom_transform where
  "zoomTwice = \<lparr>tr_k = 2, tr_x = 0, tr_y = 0\<rparr>"

text \<open>
  The view is mounted at address A and zoomed to address B (by the listener registered
  at zoom 0) while the fetch for A is outstanding; the response for B arrives first.
\<close>

definition stateB :: view_state where
  "stateB =
     run refLib [Mount, ZoomTo 0 zoomTwice, TileArrives addrB (TileJson (Some matrixB))]
       initial_state"


text \<open>
  The end-to-end example of the specification: a 4 by 4 matrix at zoom 0 (10000 base pairs
  per bin) and a TAD over the first two bins; a second TAD is wider than the tile.
\<close>

definition exampleMatrix :: matrix where
  "exampleMatrix =
     [[Some 0, Some 5, Some 0, Some 0],
      [Some 5, Some 0, Some 3, Some 0],
      [Some 0, Some 3, Some 0, Some 8],
      [Some 0, Some 0, Some 8, Some 0]]"

definition exampleTad :: tad where
  "exampleTad = \<lparr>tad_start = 0, tad_end = 20000\<rparr>"

definition wideTad :: tad where
  "wideTad = \<lparr>tad_start = 0, tad_end = 3000000\<rparr>"

text \<open>The tile is loaded and a TAD search has succeeded.\<close>

definition tadsLoadedState :: view_state where
  "tadsLoadedState =
     run refLib [Mount, TileArrives addrA (TileJson (Some exampleMatrix)), FindTADs,
          TadsArrive (AnnotItems [exampleTad, wideTad])] initial_state"

text \<open>
  The canvas after a redraw in a container 450 pixels wide, and pointers at the
  tile-pixel positions (1, 1) and (310, 250).
\<close>

definition exampleCanvas :: canvas where
  "exampleCanvas = \<lparr>cv_width = 400, cv_left = 0, cv_top = 0\<rparr>"

definition pointerNear :: mouse_event where
  "pointerNear = \<lparr>clientX = 1, clientY = 1, pageX = 1, pageY = 1\<rparr>"

definition pointerFar :: mouse_event where
  "pointerFar = \<lparr>clientX = 310, clientY = 250, pageX = 310, pageY = 250\<rparr>"

text \<open>Tile A loaded with a given matrix.\<close>

definition loaded :: "matrix \<Rightarrow> view_state" where
  "loaded m = run refLib [Mount, TileArrives addrA (TileJson (Some m))] initial_state"

definition sixMatrix :: matrix where
  "sixMatrix = [[Some 0, Some 0, Some 5], [Some 10, Some 20, Some 100]]"

definition zeroMatrix :: matrix where
  "zeroMatrix = [[Some 0, None], [Some 0, Some (- 1)]]"

definition exampleDrawing :: "draw list" where
  "exampleDrawing =
     [ClearRect 0 0 400 400, Save, Translate 0 0, Scale 1 1,
      FillRect (ScaleColor 0 8 5) 100 0 100 100,
      FillRect (ScaleColor 0 8 5) 0 100 100 100,
      FillRect (ScaleColor 0 8 3) 200 100 100 100,
      FillRect (ScaleColor 0 8 3) 100 200 100 100,
      FillRect (ScaleColor 0 8 8) 300 200 100 100,
      FillRect (ScaleColor 0 8 8) 200 300 100 100,
      StrokeStyle ''rgba(0, 0, 255, 0.7)'', LineWidth 2,
      StrokeRect 0 0 200 200, Restore]"

section \<open>Properties\<close>

subsection \<open>Shared facts\<close>


lemma newZoomLevel_range: "0 \<le> newZoomLevel lib k \<and> newZoomLevel lib k \<le> 9"
  by (simp add: newZoomLevel_def)

lemma newZoomLevel_1: "newZoomLevel refLib 1 = 0"
  by (simp add: newZoomLevel_def refLib_def)

lemma newZoomLevel_2: "newZoomLevel refLib 2 = 1"
  by (simp add: newZoomLevel_def refLib_def)


lemma zoomEvent_changed:
  assumes "newZoomLevel lib (tr_k t) \<noteq> c"
  shows "zoomEvent lib c t s =
     tileEffect (s\<lparr>tileCoords := \<lparr>zoom = newZoomLevel lib (tr_k t), tile_x = 0, tile_y = 0\<rparr>,
                    transform := t\<rparr>)"
  using assms by (simp add: zoomEvent_def onZoom_def Let_def)

lemma zoomEvent_same:
  assumes "newZoomLevel lib (tr_k t) = c"
  shows "zoomEvent lib c t s = s\<lparr>transform := t\<rparr>"
  using assms by (simp add: zoomEvent_def onZoom_def Let_def)

lemma tileSettled_keeps:
  "tileCoords (tileSettled r s) = tileCoords s"
  "status s \<noteq> Error \<Longrightarrow> status (tileSettled r s) \<noteq> Error"
  by (cases r; simp add: tileCatch_def tileThen_def)+

lemma tadsSettled_keeps:
  "tileCoords (tadsSettled r s) = tileCoords s"
  "status (tadsSettled r s) = status s"
  by (cases r; simp add: tadsCatch_def tadsThen_def)+

lemma compartmentsSettled_keeps:
  "tileCoords (compartmentsSettled r s) = tileCoords s"
  "status (compartmentsSettled r s) = status s"
  by (cases r; simp add: compartmentsCatch_def compartmentsThen_def)+

lemma zoomEvent_keeps:
  "status s \<noteq> Error \<Longrightarrow> status (zoomEvent lib c t s) \<noteq> Error"
  "addressOk s \<Longrightarrow> addressOk (zoomEvent lib c t s)"
  using newZoomLevel_range [of lib "tr_k t"]
  by (simp_all add: zoomEvent_def onZoom_def tileEffect_def Let_def addressOk_def)

lemma step_status: "status s \<noteq> Error \<Longrightarrow> status (step lib e s) \<noteq> Error"
  by (cases e)
    (simp_all add: tileEffect_def zoomEvent_keeps tileSettled_keeps handleFindTADs_def
      tadsSettled_keeps handleFindCompartments_def compartmentsSettled_keeps)

lemma step_address: "addressOk s \<Longrightarrow> addressOk (step lib e s)"
  by (cases e)
    (simp_all add: zoomEvent_keeps,
     simp_all add: addressOk_def tileEffect_def tileSettled_keeps handleFindTADs_def
      tadsSettled_keeps handleFindCompartments_def compartmentsSettled_keeps)

lemma run_status: "status s \<noteq> Error \<Longrightarrow> status (run lib es s) \<noteq> Error"
  by (induction es arbitrary: s) (simp_all add: step_status)

lemma run_address: "addressOk s \<Longrightarrow> addressOk (run lib es s)"
  by (induction es arbitrary: s) (simp_all add: step_address)

lemma status_never_error: "status (run lib es initial_state) \<noteq> Error"
  by (rule run_status) (simp add: initial_state_def)

lemma reachable_address: "addressOk (run lib es initial_state)"
  by (rule run_address) (simp add: initial_state_def addressOk_def)

lemma reachable_resolution:
  "\<exists>res. resolution (zoom (tileCoords (run lib es initial_state))) = Some res"
  using reachable_address [of lib es] by (simp add: addressOk_def resolution_def)

lemma run_append: "run lib (xs @ ys) s = run lib ys (run lib xs s)"
  by (induction xs arbitrary: s) simp_all

lemma stateB_eval:
  "stateB =
     \<lparr>error = None, status = Rendered, tads = None, compartments = None,
      matrixData = Some matrixB, tileCoords = addrB, transform = zoomTwice,
      tadMethod = ''insulation'', requests = [TileRequest 0 0 0, TileRequest 1 0 0]\<rparr>"
  by (simp add: stateB_def initial_state_def tileEffect_def zoomEvent_def onZoom_def
      zoomTwice_def newZoomLevel_2 tileThen_def addrB_def Let_def)

lemma tadsLoadedState_eval:
  "tadsLoadedState =
     \<lparr>error = None, status = Rendered, tads = Some [exampleTad, wideTad],
      compartments = None,
      matrixData = Some exampleMatrix, tileCoords = addrA, transform = zoomIdentity,
      tadMethod = ''insulation'',
      requests = [TileRequest 0 0 0, TadsRequest (Some 0) (Some 2560000) ''insulation'']\<rparr>"
  by (simp add: tadsLoadedState_def initial_state_def tileEffect_def tileThen_def
      handleFindTADs_def tadsThen_def regionStart_def regionEnd_def resolution_def
      resolutions_def addrA_def)

lemma loaded_eval:
  "loaded m =
     \<lparr>error = None, status = Rendered, tads = None, compartments = None,
      matrixData = Some m, tileCoords = addrA, transform = zoomIdentity,
      tadMethod = ''insulation'', requests = [TileRequest 0 0 0]\<rparr>"
  by (simp add: loaded_def initial_state_def tileEffect_def tileThen_def addrA_def)

lemma positiveValues_set: "set (positiveValues m) = {v. Some v \<in> set (concat m) \<and> 0 < v}"
  by (auto simp: positiveValues_def split: option.splits)

lemma positiveValues_Nil_iff:
  "positiveValues m = [] \<longleftrightarrow> (\<forall>c \<in> set (concat m). c = None \<or> (\<exists>v. c = Some v \<and> v \<le> 0))"
proof -
  have "positiveValues m = [] \<longleftrightarrow> set (positiveValues m) = {}" by simp
  also have "\<dots> \<longleftrightarrow> (\<forall>c \<in> set (concat m). c = None \<or> (\<exists>v. c = Some v \<and> v \<le> 0))"
    unfolding positiveValues_set by (auto simp: not_less) (metis not_less option.exhaust)
  finally show ?thesis .
qed

lemma paintCell_mem:
  "d \<in> set (paintCell color ps m i j) \<longleftrightarrow>
   (\<exists>v. cellAt m i j = Some (Some v) \<and> 0 < v \<and>
      d = FillRect (ScaleColor (fst color) (snd color) v) (real j * ps) (real i * ps) ps ps)"
  by (cases "cellAt m i j") (auto simp: paintCell_def split: option.splits)

lemma paintCells_mem:
  "d \<in> set (paintCells color ps m) \<longleftrightarrow>
   (\<exists>i j v. i < length m \<and> j < length m \<and> cellAt m i j = Some (Some v) \<and> 0 < v \<and>
      d = FillRect (ScaleColor (fst color) (snd color) v) (real j * ps) (real i * ps) ps ps)"
proof -
  have "d \<in> set (paintCells color ps m) \<longleftrightarrow>
      (\<exists>i < length m. \<exists>j < length m. d \<in> set (paintCell color ps m i j))"
    by (simp add: paintCells_def Bex_def)
  then show ?thesis
    unfolding paintCell_mem by blast
qed

lemma strokeTads_mem:
  "d \<in> set (strokeTads sz c ps ts) \<Longrightarrow> \<exists>x y w h. d = StrokeRect x y w h"
  by (auto simp: strokeTads_def strokeTad_def Let_def split: option.splits if_splits)

lemma render_nonempty:
  assumes "matrixData s = Some m" and "m \<noteq> []"
  shows "render lib (Some width) s =
    Some ([ClearRect 0 0 (width - 50) (width - 50), Save,
           Translate (tr_x (transform s)) (tr_y (transform s)),
           Scale (tr_k (transform s)) (tr_k (transform s))] @
          paintCells (colorDomain lib m) ((width - 50) / real (length m)) m @
          (case tads s of
             None \<Rightarrow> []
           | Some ts \<Rightarrow>
               [StrokeStyle ''rgba(0, 0, 255, 0.7)'', LineWidth (2 / tr_k (transform s))] @
               strokeTads (width - 50) (tileCoords s) ((width - 50) / real (length m)) ts) @
          [Restore])"
  using assms by (simp add: render_def Let_def)

lemma render_fills:
  assumes "matrixData s = Some m" and "m \<noteq> []" and "render lib (Some width) s = Some cmds"
  shows "FillRect f x y w h \<in> set cmds \<longleftrightarrow>
     FillRect f x y w h \<in> set (paintCells (colorDomain lib m) ((width - 50) / real (length m)) m)"
proof -
  have "FillRect f x y w h \<notin> set (strokeTads sz c ps ts)" for sz c ps ts
    using strokeTads_mem by blast
  then show ?thesis
    using assms(3) unfolding render_nonempty [OF assms(1,2)]
    by (auto split: option.splits)
qed

lemma tadLoop_first:
  assumes "i < length ts" and "inside (ts ! i)" and "\<forall>j<i. \<not> inside (ts ! j)"
  shows "tadLoop inside ts = Some (ts ! i)"
  using assms
proof (induction ts arbitrary: i)
  case Nil
  then show ?case by simp
next
  case (Cons t ts)
  show ?case
  proof (cases i)
    case 0
    with Cons.prems show ?thesis by simp
  next
    case (Suc k)
    with Cons.prems have "\<not> inside t" by auto
    moreover have "tadLoop inside ts = Some (ts ! k)"
    proof (rule Cons.IH)
      show "k < length ts" using Cons.prems Suc by simp
      show "inside (ts ! k)" using Cons.prems Suc by simp
      show "\<forall>j<k. \<not> inside (ts ! j)"
      proof (intro allI impI)
        fix j assume "j < k"
        then have "Suc j < i" using Suc by simp
        with Cons.prems have "\<not> inside ((t # ts) ! Suc j)" by blast
        then show "\<not> inside (ts ! j)" by simp
      qed
    qed
    ultimately show ?thesis using Suc by simp
  qed
qed

lemma tadLoop_Some:
  "tadLoop inside ts = Some t \<Longrightarrow> t \<in> set ts \<and> inside t"
  by (induction ts) (auto split: if_splits)

lemma handleMouseMove_tad:
  assumes "matrixData s = Some m" and "m \<noteq> []"
    and "invert (transform s) (clientX ev - cv_left cv, clientY ev - cv_top cv) = Some p"
    and "tadHit s (cv_width cv / real (length m)) p = Some t"
  shows "handleMouseMove lib cv ev s =
    SetTooltip (Visible (tadTooltipContent lib t) (pageX ev) (pageY ev))"
  using assms by (simp add: handleMouseMove_def Let_def)

lemma handleMouseMove_cell:
  assumes "matrixData s = Some m" and "m \<noteq> []"
    and "invert (transform s) (clientX ev - cv_left cv, clientY ev - cv_top cv) = Some p"
    and "tadHit s (cv_width cv / real (length m)) p = None"
  shows "handleMouseMove lib cv ev s = cellTooltip lib m (cv_width cv / real (length m)) p ev"
  using assms by (simp add: handleMouseMove_def Let_def)

lemma resolution_0: "resolution 0 = Some 10000"
  by (simp add: resolution_def resolutions_def)

lemma far_contains:
  "\<not> tadContains 0 10000 100 (310, 250) exampleTad"
  "tadContains 0 10000 100 (310, 250) wideTad"
  "tadContains 0 10000 100 (1, 1) exampleTad"
  by (simp_all add: tadContains_def tadX_def tadSize_def exampleTad_def wideTad_def)

lemma fmt_examples:
  "tadTooltipContent refLib exampleTad = ''TAD: 0.00 - 20.0k''"
  "tadTooltipContent refLib wideTad = ''TAD: 0.00 - 3.00M''"
  "axisTickFormat refLib 0 = ''0.0''"
  "axisTickFormat refLib 20000 = ''20k''"
  "toFixed refLib 0 2 = ''0.00''"
  "toFixed refLib 8 2 = ''8.00''"
  by (simp_all add: tadTooltipContent_def axisTickFormat_def refLib_def formatRef_def
      siFormat_def siCoefficient_def siPrefixes_def digits.simps Let_def exampleTad_def
      wideTad_def toFixedRef_def toFixedNonneg_def)

lemma hm_far: "handleMouseMove refLib exampleCanvas pointerFar tadsLoadedState
   = SetTooltip (Visible ''TAD: 0.00 - 3.00M'' 310 250)"
  by (simp add: handleMouseMove_def tadsLoadedState_eval exampleMatrix_def exampleCanvas_def
     pointerFar_def invert_def zoomIdentity_def tadHit_def addrA_def resolution_0 far_contains fmt_examples)

lemma hm_near: "handleMouseMove refLib exampleCanvas pointerNear tadsLoadedState
   = SetTooltip (Visible ''TAD: 0.00 - 20.0k'' 1 1)"
  by (simp add: handleMouseMove_def tadsLoadedState_eval exampleMatrix_def exampleCanvas_def
     pointerNear_def invert_def zoomIdentity_def tadHit_def addrA_def resolution_0 far_contains fmt_examples)

lemma hm_cell: "handleMouseMove refLib exampleCanvas pointerNear (loaded exampleMatrix)
   = SetTooltip (Visible ''Score: 0.00'' 1 1)"
  by (simp add: handleMouseMove_def loaded_eval exampleMatrix_def exampleCanvas_def
     pointerNear_def invert_def zoomIdentity_def tadHit_def addrA_def cellTooltip_def cellAt_def fmt_examples)

lemma pv_example: "positiveValues exampleMatrix = [5, 5, 3, 3, 8, 8]"
  by (simp add: positiveValues_def exampleMatrix_def)

lemma dom_example: "colorDomain refLib exampleMatrix = (0, 8)"
  by (simp add: colorDomain_def pv_example refLib_def quantileRef_def Let_def)

lemma paint_example: "paintCells (0, 8) 100 exampleMatrix =
     [FillRect (ScaleColor 0 8 5) 100 0 100 100,
      FillRect (ScaleColor 0 8 5) 0 100 100 100,
      FillRect (ScaleColor 0 8 3) 200 100 100 100,
      FillRect (ScaleColor 0 8 3) 100 200 100 100,
      FillRect (ScaleColor 0 8 8) 300 200 100 100,
      FillRect (ScaleColor 0 8 8) 200 300 100 100]"
  by (simp add: paintCells_def paintCell_def cellAt_def exampleMatrix_def upt_rec)

lemma stroke_example:
  "strokeTads 400 addrA 100 [exampleTad, wideTad] = [StrokeRect 0 0 200 200]"
  by (simp add: strokeTads_def strokeTad_def addrA_def resolution_0 tadX_def tadSize_def
      exampleTad_def wideTad_def Let_def)

lemma render_example: "render refLib (Some 450) tadsLoadedState = Some exampleDrawing"
proof -
  have len: "length exampleMatrix = 4" by (simp add: exampleMatrix_def)
  have ne: "exampleMatrix \<noteq> []" by (simp add: exampleMatrix_def)
  show ?thesis
    by (simp add: render_def tadsLoadedState_eval Let_def ne len dom_example paint_example
        stroke_example zoomIdentity_def exampleDrawing_def)
qed

lemma strokeTads_mem_iff:
  assumes "resolution (zoom c) = Some res"
  shows "StrokeRect x y w h \<in> set (strokeTads sz c ps ts) \<longleftrightarrow>
    (\<exists>t \<in> set ts. x = tadX (real_of_int (tile_x c) * 256 * res) res ps t \<and> y = x \<and>
        w = tadSize res ps t \<and> h = w \<and> 0 \<le> x \<and> x + w \<le> sz)"
  using assms by (auto simp: strokeTads_def strokeTad_def Let_def)

lemma render_strokes:
  assumes "matrixData s = Some m" and "m \<noteq> []" and "tads s = Some ts"
    and "render lib (Some width) s = Some cmds"
  shows "StrokeRect x y w h \<in> set cmds \<longleftrightarrow>
     StrokeRect x y w h \<in>
       set (strokeTads (width - 50) (tileCoords s) ((width - 50) / real (length m)) ts)"
  using assms(4) unfolding render_nonempty [OF assms(1,2)]
  by (auto simp: assms(3) paintCells_mem)

subsection \<open>Tile fetcher\<close>

text \<open>
  C1 (as stated, refuted). The view is at address B, the matrix served for B is stored, and
  the fetch issued earlier for address A is still outstanding. When the response for A
  arrives it replaces the stored matrix: the late result is not discarded.
\<close>

theorem stale_tile_response_overwrites:
  "tileCoords stateB = addrB \<and>
   matrixData stateB = Some matrixB \<and>
   requests stateB = [TileRequest 0 0 0, TileRequest 1 0 0] \<and>
   tileCoords (step refLib (TileArrives addrA (TileJson (Some matrixA))) stateB) = addrB \<and>
   matrixData (step refLib (TileArrives addrA (TileJson (Some matrixA))) stateB) =
     Some matrixA \<and>
   matrixData (step refLib (TileArrives addrA (TileJson (Some matrixA))) stateB) \<noteq>
     matrixData stateB"
  by (simp add: stateB_eval tileThen_def matrixA_def matrixB_def)

text \<open>
  C1 (amended). A tile response that carries a JSON value is applied whatever address it
  was requested for and whatever the current address is: its \<^verbatim>\<open>data\<close> becomes the stored
  matrix and the status becomes \<^verbatim>\<open>rendered\<close>, while the current address, the overlays
  and the requests issued stay as they were. This holds after every sequence of events:
  the callback has no stale-response guard.
\<close>

theorem late_tile_response_is_applied:
  "matrixData (step lib (TileArrives A (TileJson d)) s) = d \<and>
   status (step lib (TileArrives A (TileJson d)) s) = Rendered \<and>
   tileCoords (step lib (TileArrives A (TileJson d)) s) = tileCoords s \<and>
   tads (step lib (TileArrives A (TileJson d)) s) = tads s \<and>
   compartments (step lib (TileArrives A (TileJson d)) s) = compartments s \<and>
   requests (step lib (TileArrives A (TileJson d)) s) = requests s \<and>
   matrixData (run lib (es @ [TileArrives A (TileJson d)]) initial_state) = d \<and>
   tileCoords (run lib (es @ [TileArrives A (TileJson d)]) initial_state) =
     tileCoords (run lib es initial_state)"
proof -
  have one:
    "matrixData (step lib (TileArrives A (TileJson d)) s) = d \<and>
     status (step lib (TileArrives A (TileJson d)) s) = Rendered \<and>
     tileCoords (step lib (TileArrives A (TileJson d)) s) = tileCoords s \<and>
     tads (step lib (TileArrives A (TileJson d)) s) = tads s \<and>
     compartments (step lib (TileArrives A (TileJson d)) s) = compartments s \<and>
     requests (step lib (TileArrives A (TileJson d)) s) = requests s" for s
    by (simp add: tileThen_def)
  have "run lib (es @ [TileArrives A (TileJson d)]) initial_state =
      step lib (TileArrives A (TileJson d)) (run lib es initial_state)"
    by (simp add: run_append)
  with one [of s] one [of "run lib es initial_state"] show ?thesis
    by simp
qed

text \<open>
  C2 (the code at the failing input). After the mount, the tile fetch fails with a network
  error: the error message is set and the matrix is untouched, but the status stays
  \<^verbatim>\<open>fetching\<close>. Every failing response leaves the status as it was, and no sequence of
  events ever stores the status \<^verbatim>\<open>error\<close>. A JSON body without a \<^verbatim>\<open>data\<close> field is
  not treated as a failure at all: it clears the stored matrix and the status becomes
  \<^verbatim>\<open>rendered\<close>.
\<close>

theorem failed_tile_fetch_stays_fetching:
  "status (run lib [Mount, TileArrives addrA TileNetworkError] initial_state) = Fetching \<and>
   status (run lib [Mount, TileArrives addrA TileNetworkError] initial_state) \<noteq> Error \<and>
   error (run lib [Mount, TileArrives addrA TileNetworkError] initial_state) =
     Some ''Could not connect to the backend server.'' \<and>
   matrixData (run lib [Mount, TileArrives addrA TileNetworkError] initial_state) =
     matrixData initial_state \<and>
   status (tileSettled TileNetworkError s) = status s \<and>
   status (tileSettled TileBodyNotJson s) = status s \<and>
   status (tileSettled TileJsonNull s) = status s \<and>
   matrixData (tileSettled TileNetworkError s) = matrixData s \<and>
   matrixData (tileSettled TileBodyNotJson s) = matrixData s \<and>
   matrixData (tileSettled TileJsonNull s) = matrixData s \<and>
   status (run lib es initial_state) \<noteq> Error \<and>
   status (step lib (TileArrives addrA (TileJson None)) stateB) = Rendered \<and>
   error (step lib (TileArrives addrA (TileJson None)) stateB) = None \<and>
   matrixData stateB = Some matrixB \<and>
   matrixData (step lib (TileArrives addrA (TileJson None)) stateB) = None"
proof -
  have concrete:
    "status (run lib [Mount, TileArrives addrA TileNetworkError] initial_state) = Fetching"
    "error (run lib [Mount, TileArrives addrA TileNetworkError] initial_state) =
       Some ''Could not connect to the backend server.''"
    "matrixData (run lib [Mount, TileArrives addrA TileNetworkError] initial_state) =
       matrixData initial_state"
    by (simp_all add: initial_state_def tileEffect_def tileCatch_def)
  have malformed:
    "status (step lib (TileArrives addrA (TileJson None)) stateB) = Rendered"
    "error (step lib (TileArrives addrA (TileJson None)) stateB) = None"
    "matrixData stateB = Some matrixB"
    "matrixData (step lib (TileArrives addrA (TileJson None)) stateB) = None"
    by (simp_all add: stateB_eval tileThen_def)
  show ?thesis
    using concrete malformed status_never_error [of lib es]
    by (simp add: tileCatch_def)
qed

text \<open>
  C5. Storing a new tile address B and running the effect that depends on it leaves the
  status \<^verbatim>\<open>fetching\<close>, both overlay collections \<^verbatim>\<open>null\<close>, and the list of issued
  requests longer by exactly one request, for B. The zoom listener is the only writer of
  the address. It stores the address (level, 0, 0) exactly when the level of the event
  differs from the zoom the listener captured, and each such store has this effect, also
  when the address stored equals the one stored before; an event whose level equals the
  captured zoom stores no address and issues no request.
\<close>

theorem tile_address_change_refetches:
  "status (tileEffect (s\<lparr>tileCoords := B\<rparr>)) = Fetching \<and>
   tads (tileEffect (s\<lparr>tileCoords := B\<rparr>)) = None \<and>
   compartments (tileEffect (s\<lparr>tileCoords := B\<rparr>)) = None \<and>
   tileCoords (tileEffect (s\<lparr>tileCoords := B\<rparr>)) = B \<and>
   requests (tileEffect (s\<lparr>tileCoords := B\<rparr>)) =
     requests s @ [TileRequest (zoom B) (tile_x B) (tile_y B)] \<and>
   (newZoomLevel lib (tr_k t) \<noteq> c \<longrightarrow>
      status (zoomEvent lib c t s) = Fetching \<and>
      tads (zoomEvent lib c t s) = None \<and>
      compartments (zoomEvent lib c t s) = None \<and>
      tileCoords (zoomEvent lib c t s) =
        \<lparr>zoom = newZoomLevel lib (tr_k t), tile_x = 0, tile_y = 0\<rparr> \<and>
      requests (zoomEvent lib c t s) =
        requests s @ [TileRequest (newZoomLevel lib (tr_k t)) 0 0]) \<and>
   (newZoomLevel lib (tr_k t) = c \<longrightarrow>
      tileCoords (zoomEvent lib c t s) = tileCoords s \<and>
      requests (zoomEvent lib c t s) = requests s)"
proof -
  have effect:
    "status (tileEffect (s\<lparr>tileCoords := B\<rparr>)) = Fetching \<and>
     tads (tileEffect (s\<lparr>tileCoords := B\<rparr>)) = None \<and>
     compartments (tileEffect (s\<lparr>tileCoords := B\<rparr>)) = None \<and>
     tileCoords (tileEffect (s\<lparr>tileCoords := B\<rparr>)) = B \<and>
     requests (tileEffect (s\<lparr>tileCoords := B\<rparr>)) =
       requests s @ [TileRequest (zoom B) (tile_x B) (tile_y B)]"
    by (simp add: tileEffect_def)
  have changed:
    "status (zoomEvent lib c t s) = Fetching \<and>
     tads (zoomEvent lib c t s) = None \<and>
     compartments (zoomEvent lib c t s) = None \<and>
     tileCoords (zoomEvent lib c t s) =
       \<lparr>zoom = newZoomLevel lib (tr_k t), tile_x = 0, tile_y = 0\<rparr> \<and>
     requests (zoomEvent lib c t s) =
       requests s @ [TileRequest (newZoomLevel lib (tr_k t)) 0 0]"
    if "newZoomLevel lib (tr_k t) \<noteq> c"
    using zoomEvent_changed [OF that] by (simp add: tileEffect_def)
  have same:
    "tileCoords (zoomEvent lib c t s) = tileCoords s \<and>
     requests (zoomEvent lib c t s) = requests s"
    if "newZoomLevel lib (tr_k t) = c"
    using zoomEvent_same [OF that] by simp
  from effect changed same show ?thesis
    by blast
qed

text \<open>
  The witness follows one wheel gesture from the mounted view, all of it handled by the
  listener that captured zoom 0: scale 2 stores address B and requests it; scale 2 again
  stores an equal address and requests it a second time; scale 1 has the captured level,
  so address B stays and nothing is requested.
\<close>

theorem tile_address_change_refetches_witness:
  "newZoomLevel refLib (tr_k zoomTwice) \<noteq> 0 \<and>
   status (run refLib [Mount, ZoomTo 0 zoomTwice] initial_state) = Fetching \<and>
   tads (run refLib [Mount, ZoomTo 0 zoomTwice] initial_state) = None \<and>
   compartments (run refLib [Mount, ZoomTo 0 zoomTwice] initial_state) = None \<and>
   tileCoords (run refLib [Mount, ZoomTo 0 zoomTwice] initial_state) = addrB \<and>
   requests (run refLib [Mount, ZoomTo 0 zoomTwice] initial_state) =
     [TileRequest 0 0 0, TileRequest 1 0 0] \<and>
   requests (run refLib [Mount, ZoomTo 0 zoomTwice, ZoomTo 0 zoomTwice] initial_state) =
     [TileRequest 0 0 0, TileRequest 1 0 0, TileRequest 1 0 0] \<and>
   newZoomLevel refLib (tr_k zoomIdentity) = 0 \<and>
   tileCoords (run refLib [Mount, ZoomTo 0 zoomTwice, ZoomTo 0 zoomIdentity] initial_state) =
     addrB \<and>
   requests (run refLib [Mount, ZoomTo 0 zoomTwice, ZoomTo 0 zoomIdentity] initial_state) =
     [TileRequest 0 0 0, TileRequest 1 0 0]"
proof -
  have lvl: "newZoomLevel refLib (tr_k zoomTwice) \<noteq> 0"
    by (simp add: zoomTwice_def newZoomLevel_2)
  have same: "newZoomLevel refLib (tr_k zoomIdentity) = 0"
    by (simp add: zoomIdentity_def newZoomLevel_1)
  have two: "newZoomLevel refLib (tr_k zoomTwice) = 1"
    by (simp add: zoomTwice_def newZoomLevel_2)
  have mounted: "requests (tileEffect initial_state) = [TileRequest 0 0 0]"
    by (simp add: tileEffect_def initial_state_def)
  note first = tile_address_change_refetches
    [where lib = refLib and c = 0 and t = zoomTwice and s = "tileEffect initial_state"
       and B = addrB]
  note second = tile_address_change_refetches
    [where lib = refLib and c = 0 and t = zoomTwice
       and s = "zoomEvent refLib 0 zoomTwice (tileEffect initial_state)" and B = addrB]
  note third = tile_address_change_refetches
    [where lib = refLib and c = 0 and t = zoomIdentity
       and s = "zoomEvent refLib 0 zoomTwice (tileEffect initial_state)" and B = addrB]
  show ?thesis
    using lvl same first second third
    by (simp add: two mounted addrB_def)
qed

subsection \<open>Zoom-level transition\<close>



subsection \<open>Matrix renderer\<close>

text \<open>
  C6. On a redraw that reaches the colour scale (a non-empty matrix and a measured
  container), the domain of the scale is \<open>[0, u]\<close>: \<open>u\<close> is the 0.95-quantile d3 gives
  for the strictly positive values of the matrix when that is a non-zero number, and \<open>1\<close>
  when there is no strictly positive value (d3's quantile of an empty array being
  \<^verbatim>\<open>undefined\<close>). The positive values of a matrix with the values 0, 0, 5, 10, 20, 100 are
  5, 10, 20, 100, and a matrix has no positive value exactly when every cell is
  \<^verbatim>\<open>null\<close>, zero or negative. The filled rectangles of the redraw are exactly those of the
  cells inside the square of side \<^verbatim>\<open>numBins\<close> that hold a strictly positive number, each
  at its cell position and in the colour the scale gives its value; every other cell is
  left unpainted.
\<close>

theorem color_scale_rule:
  assumes "matrixData s = Some m" and "m \<noteq> []"
    and "render lib (Some width) s = Some cmds"
  shows "fst (colorDomain lib m) = 0 \<and>
    set (positiveValues m) = {v. Some v \<in> set (concat m) \<and> 0 < v} \<and>
    (\<forall>u. d3_quantile lib (positiveValues m) (95 / 100) = Some u \<longrightarrow> u \<noteq> 0 \<longrightarrow>
       colorDomain lib m = (0, u)) \<and>
    (positiveValues m = [] \<longrightarrow> d3_quantile lib [] (95 / 100) = None \<longrightarrow>
       colorDomain lib m = (0, 1)) \<and>
    (positiveValues m = [] \<longleftrightarrow>
       (\<forall>c \<in> set (concat m). c = None \<or> (\<exists>v. c = Some v \<and> v \<le> 0))) \<and>
    (concat m = [Some 0, Some 0, Some 5, Some 10, Some 20, Some 100] \<longrightarrow>
       positiveValues m = [5, 10, 20, 100]) \<and>
    (\<forall>f x y w h. FillRect f x y w h \<in> set cmds \<longleftrightarrow>
       (\<exists>i j v. i < length m \<and> j < length m \<and> cellAt m i j = Some (Some v) \<and> 0 < v \<and>
          f = ScaleColor 0 (snd (colorDomain lib m)) v \<and>
          x = real j * ((width - 50) / real (length m)) \<and>
          y = real i * ((width - 50) / real (length m)) \<and>
          w = (width - 50) / real (length m) \<and> h = (width - 50) / real (length m)))"
proof -
  have lower: "fst (colorDomain lib m) = 0"
    by (simp add: colorDomain_def)
  have upper: "colorDomain lib m = (0, u)"
    if "d3_quantile lib (positiveValues m) (95 / 100) = Some u" and "u \<noteq> 0" for u
    using that by (simp add: colorDomain_def)
  have none: "colorDomain lib m = (0, 1)"
    if "positiveValues m = []" and "d3_quantile lib [] (95 / 100) = None"
    using that by (simp add: colorDomain_def)
  have six: "positiveValues m = [5, 10, 20, 100]"
    if "concat m = [Some 0, Some 0, Some 5, Some 10, Some 20, Some 100]"
    using that by (simp add: positiveValues_def)
  have fills: "FillRect f x y w h \<in> set cmds \<longleftrightarrow>
       (\<exists>i j v. i < length m \<and> j < length m \<and> cellAt m i j = Some (Some v) \<and> 0 < v \<and>
          f = ScaleColor 0 (snd (colorDomain lib m)) v \<and>
          x = real j * ((width - 50) / real (length m)) \<and>
          y = real i * ((width - 50) / real (length m)) \<and>
          w = (width - 50) / real (length m) \<and> h = (width - 50) / real (length m))"
    for f x y w h
    unfolding render_fills [OF assms] paintCells_mem lower by auto
  from lower upper none six fills positiveValues_set [of m] positiveValues_Nil_iff [of m]
  show ?thesis
    by blast
qed


lemma color_scale_examples:
  "render refLib (Some 250) (loaded sixMatrix) =
     Some [ClearRect 0 0 200 200, Save, Translate 0 0, Scale 1 1,
           FillRect (ScaleColor 0 88 10) 0 100 100 100,
           FillRect (ScaleColor 0 88 20) 100 100 100 100, Restore]"
  "render refLib (Some 250) (loaded zeroMatrix) =
     Some [ClearRect 0 0 200 200, Save, Translate 0 0, Scale 1 1, Restore]"
  by (simp_all add: render_def loaded_eval Let_def sixMatrix_def zeroMatrix_def
      zoomIdentity_def paintCells_def paintCell_def cellAt_def colorDomain_def
      positiveValues_def refLib_def quantileRef_def upt_rec)

theorem color_scale_rule_witness:
  "matrixData (loaded sixMatrix) = Some sixMatrix \<and> sixMatrix \<noteq> [] \<and>
   render refLib (Some 250) (loaded sixMatrix) =
     Some [ClearRect 0 0 200 200, Save, Translate 0 0, Scale 1 1,
           FillRect (ScaleColor 0 88 10) 0 100 100 100,
           FillRect (ScaleColor 0 88 20) 100 100 100 100, Restore] \<and>
   concat sixMatrix = [Some 0, Some 0, Some 5, Some 10, Some 20, Some 100] \<and>
   positiveValues sixMatrix = [5, 10, 20, 100] \<and>
   d3_quantile refLib (positiveValues sixMatrix) (95 / 100) = Some 88 \<and>
   colorDomain refLib sixMatrix = (0, 88) \<and>
   matrixData (loaded zeroMatrix) = Some zeroMatrix \<and> zeroMatrix \<noteq> [] \<and>
   render refLib (Some 250) (loaded zeroMatrix) =
     Some [ClearRect 0 0 200 200, Save, Translate 0 0, Scale 1 1, Restore] \<and>
   positiveValues zeroMatrix = [] \<and>
   d3_quantile refLib [] (95 / 100) = None \<and>
   colorDomain refLib zeroMatrix = (0, 1)"
proof -
  have six: "matrixData (loaded sixMatrix) = Some sixMatrix" "sixMatrix \<noteq> []"
    by (simp_all add: loaded_eval sixMatrix_def)
  have zero: "matrixData (loaded zeroMatrix) = Some zeroMatrix" "zeroMatrix \<noteq> []"
    by (simp_all add: loaded_eval zeroMatrix_def)
  have flat: "concat sixMatrix = [Some 0, Some 0, Some 5, Some 10, Some 20, Some 100]"
    by (simp add: sixMatrix_def)
  have q: "d3_quantile refLib [5, 10, 20, 100] (95 / 100) = Some 88"
    "d3_quantile refLib [] (95 / 100) = None"
    by (simp_all add: refLib_def quantileRef_def Let_def)
  have none: "positiveValues zeroMatrix = []"
    by (simp add: positiveValues_def zeroMatrix_def)
  note r6 = color_scale_rule [OF six color_scale_examples(1)]
  note r0 = color_scale_rule [OF zero color_scale_examples(2)]
  have pv: "positiveValues sixMatrix = [5, 10, 20, 100]"
    using r6 flat by blast
  have q6: "d3_quantile refLib (positiveValues sixMatrix) (95 / 100) = Some 88"
    unfolding pv by (rule q(1))
  have "(88::real) \<noteq> 0"
    by simp
  with r6 q6 have dom6: "colorDomain refLib sixMatrix = (0, 88)"
    by blast
  from r0 none q(2) have dom0: "colorDomain refLib zeroMatrix = (0, 1)"
    by blast
  show ?thesis
    using six zero color_scale_examples flat pv q6 dom6 none q(2) dom0
    by (intro conjI) assumption+
qed

text \<open>
  C10. On a redraw of a non-empty matrix with TADs loaded, the stroked rectangles are
  exactly the full squares of the TADs whose left edge is at least 0 and whose right edge
  is at most the canvas size: a TAD is stroked whole or not at all. The hit-tester, at the
  same pixel size, reports the first TAD whose square contains the pointer without any
  such test. In the example the TAD from 0 to 3000000 is not among the strokes of the
  redraw, and the pointer at (310, 250) gets its tooltip.
\<close>

theorem tad_outline_rule:
  assumes "matrixData s = Some m" and "m \<noteq> []" and "tads s = Some ts"
    and "resolution (zoom (tileCoords s)) = Some res"
    and "render lib (Some width) s = Some cmds"
    and "vs = real_of_int (tile_x (tileCoords s)) * 256 * res"
    and "ps = (width - 50) / real (length m)"
  shows "(\<forall>x y w h. StrokeRect x y w h \<in> set cmds \<longleftrightarrow>
       (\<exists>t \<in> set ts. x = tadX vs res ps t \<and> y = x \<and> w = tadSize res ps t \<and> h = w \<and>
          0 \<le> x \<and> x + w \<le> width - 50)) \<and>
    (\<forall>t \<in> set ts.
       StrokeRect (tadX vs res ps t) (tadX vs res ps t) (tadSize res ps t) (tadSize res ps t)
         \<in> set cmds \<longleftrightarrow>
       0 \<le> tadX vs res ps t \<and> tadX vs res ps t + tadSize res ps t \<le> width - 50) \<and>
    (\<forall>p i. i < length ts \<longrightarrow> tadContains vs res ps p (ts ! i) \<longrightarrow>
       (\<forall>j<i. \<not> tadContains vs res ps p (ts ! j)) \<longrightarrow> tadHit s ps p = Some (ts ! i)) \<and>
    render refLib (Some 450) tadsLoadedState = Some exampleDrawing \<and>
    StrokeRect 0 0 30000 30000 \<notin> set exampleDrawing \<and>
    handleMouseMove refLib exampleCanvas pointerFar tadsLoadedState =
      SetTooltip (Visible (tadTooltipContent refLib wideTad) 310 250)"
proof -
  have strokes: "StrokeRect x y w h \<in> set cmds \<longleftrightarrow>
       (\<exists>t \<in> set ts. x = tadX vs res ps t \<and> y = x \<and> w = tadSize res ps t \<and> h = w \<and>
          0 \<le> x \<and> x + w \<le> width - 50)" for x y w h
    unfolding render_strokes [OF assms(1,2,3,5)] strokeTads_mem_iff [OF assms(4)] assms(6,7)
    by simp
  have each: "StrokeRect (tadX vs res ps t) (tadX vs res ps t) (tadSize res ps t)
         (tadSize res ps t) \<in> set cmds \<longleftrightarrow>
       0 \<le> tadX vs res ps t \<and> tadX vs res ps t + tadSize res ps t \<le> width - 50"
    if "t \<in> set ts" for t
    unfolding strokes using that by auto
  have hit: "tadHit s ps p = Some (ts ! i)"
    if "i < length ts" and "tadContains vs res ps p (ts ! i)"
      and "\<forall>j<i. \<not> tadContains vs res ps p (ts ! j)" for p i
    using tadLoop_first [OF that] assms(3,4) by (simp add: tadHit_def assms(6))
  have ex: "StrokeRect 0 0 30000 30000 \<notin> set exampleDrawing"
    by (simp add: exampleDrawing_def)
  from strokes each hit render_example ex hm_far fmt_examples(2) show ?thesis
    by simp
qed

theorem tad_outline_rule_witness:
  "matrixData tadsLoadedState = Some exampleMatrix \<and> exampleMatrix \<noteq> [] \<and>
   tads tadsLoadedState = Some [exampleTad, wideTad] \<and>
   resolution (zoom (tileCoords tadsLoadedState)) = Some 10000 \<and>
   render refLib (Some 450) tadsLoadedState = Some exampleDrawing \<and>
   tadX 0 10000 100 exampleTad = 0 \<and> tadSize 10000 100 exampleTad = 200 \<and>
   tadX 0 10000 100 wideTad = 0 \<and> tadSize 10000 100 wideTad = 30000 \<and>
   StrokeRect 0 0 200 200 \<in> set exampleDrawing \<and>
   StrokeRect 0 0 30000 30000 \<notin> set exampleDrawing \<and>
   tadHit tadsLoadedState 100 (310, 250) = Some wideTad"
proof -
  have m: "matrixData tadsLoadedState = Some exampleMatrix" "exampleMatrix \<noteq> []"
    by (simp_all add: tadsLoadedState_eval exampleMatrix_def)
  have ts: "tads tadsLoadedState = Some [exampleTad, wideTad]"
    by (simp add: tadsLoadedState_eval)
  have res: "resolution (zoom (tileCoords tadsLoadedState)) = Some 10000"
    by (simp add: tadsLoadedState_eval addrA_def resolution_0)
  have vs: "(0::real) = real_of_int (tile_x (tileCoords tadsLoadedState)) * 256 * 10000"
    by (simp add: tadsLoadedState_eval addrA_def)
  have ps: "(100::real) = (450 - 50) / real (length exampleMatrix)"
    by (simp add: exampleMatrix_def)
  have geom: "tadX 0 10000 100 exampleTad = 0" "tadSize 10000 100 exampleTad = 200"
    "tadX 0 10000 100 wideTad = 0" "tadSize 10000 100 wideTad = 30000"
    by (simp_all add: tadX_def tadSize_def exampleTad_def wideTad_def)
  note rule = tad_outline_rule [OF m ts res render_example vs ps]
  have drawn: "StrokeRect 0 0 200 200 \<in> set exampleDrawing"
    using rule geom by auto
  have skipped: "StrokeRect 0 0 30000 30000 \<notin> set exampleDrawing"
    using rule geom by auto
  have "tadHit tadsLoadedState 100 (310, 250) = Some ([exampleTad, wideTad] ! 1)"
    using rule far_contains by (auto simp: less_Suc_eq)
  then have hit: "tadHit tadsLoadedState 100 (310, 250) = Some wideTad"
    by simp
  show ?thesis
    using m ts res render_example geom drawn skipped hit
    by (intro conjI) assumption+
qed

subsection \<open>Overlay hit-tester\<close>

text \<open>
  C7. With a non-empty matrix and TADs loaded, let the pointer's inverted tile-pixel
  position lie inside the square of the TAD at index \<open>i\<close> of the list and inside the
  square of no TAD before it. Then the handler shows the TAD tooltip of that TAD at the
  pointer's page position, and what it shows is never a cell score, whatever the matrix
  holds at that position.
\<close>

theorem tad_hit_precedence:
  assumes "matrixData s = Some m" and "m \<noteq> []" and "tads s = Some ts"
    and "resolution (zoom (tileCoords s)) = Some res"
    and "invert (transform s) (clientX ev - cv_left cv, clientY ev - cv_top cv) = Some p"
    and "i < length ts"
    and "tadContains (real_of_int (tile_x (tileCoords s)) * 256 * res) res
           (cv_width cv / real (length m)) p (ts ! i)"
    and "\<forall>j<i. \<not> tadContains (real_of_int (tile_x (tileCoords s)) * 256 * res) res
           (cv_width cv / real (length m)) p (ts ! j)"
  shows "handleMouseMove lib cv ev s =
      SetTooltip (Visible (tadTooltipContent lib (ts ! i)) (pageX ev) (pageY ev)) \<and>
    (\<forall>v x y. handleMouseMove lib cv ev s \<noteq>
      SetTooltip (Visible (''Score: '' @ toFixed lib v 2) x y))"
proof -
  have "tadHit s (cv_width cv / real (length m)) p = Some (ts ! i)"
    using assms(3,4) tadLoop_first [OF assms(6,7,8)] by (simp add: tadHit_def)
  then have hit: "handleMouseMove lib cv ev s =
      SetTooltip (Visible (tadTooltipContent lib (ts ! i)) (pageX ev) (pageY ev))"
    by (rule handleMouseMove_tad [OF assms(1,2,5)])
  have "tadTooltipContent lib (ts ! i) \<noteq> ''Score: '' @ toFixed lib v 2" for v
    by (simp add: tadTooltipContent_def)
  with hit show ?thesis by simp
qed

theorem tad_hit_precedence_witness:
  "matrixData tadsLoadedState = Some exampleMatrix \<and> exampleMatrix \<noteq> [] \<and>
   tads tadsLoadedState = Some [exampleTad, wideTad] \<and>
   resolution (zoom (tileCoords tadsLoadedState)) = Some 10000 \<and>
   invert (transform tadsLoadedState)
     (clientX pointerFar - cv_left exampleCanvas, clientY pointerFar - cv_top exampleCanvas) =
     Some (310, 250) \<and>
   \<not> tadContains 0 10000 100 (310, 250) ([exampleTad, wideTad] ! 0) \<and>
   tadContains 0 10000 100 (310, 250) ([exampleTad, wideTad] ! 1) \<and>
   cellAt exampleMatrix 2 3 = Some (Some 8) \<and>
   handleMouseMove refLib exampleCanvas pointerFar tadsLoadedState =
     SetTooltip (Visible ''TAD: 0.00 - 3.00M'' 310 250)"
proof -
  have m: "matrixData tadsLoadedState = Some exampleMatrix" "exampleMatrix \<noteq> []"
    by (simp_all add: tadsLoadedState_eval exampleMatrix_def)
  have ts: "tads tadsLoadedState = Some [exampleTad, wideTad]"
    by (simp add: tadsLoadedState_eval)
  have res: "resolution (zoom (tileCoords tadsLoadedState)) = Some 10000"
    by (simp add: tadsLoadedState_eval addrA_def resolution_0)
  have inv: "invert (transform tadsLoadedState)
     (clientX pointerFar - cv_left exampleCanvas, clientY pointerFar - cv_top exampleCanvas) =
     Some (310, 250)"
    by (simp add: tadsLoadedState_eval invert_def zoomIdentity_def pointerFar_def
        exampleCanvas_def)
  have i: "(1::nat) < length [exampleTad, wideTad]"
    by simp
  have geom: "real_of_int (tile_x (tileCoords tadsLoadedState)) * 256 * 10000 = 0"
    "cv_width exampleCanvas / real (length exampleMatrix) = 100"
    by (simp_all add: tadsLoadedState_eval addrA_def exampleCanvas_def exampleMatrix_def)
  have inside: "tadContains (real_of_int (tile_x (tileCoords tadsLoadedState)) * 256 * 10000)
      10000 (cv_width exampleCanvas / real (length exampleMatrix)) (310, 250)
      ([exampleTad, wideTad] ! 1)"
    unfolding geom by (simp add: far_contains)
  have before: "\<forall>j<1. \<not> tadContains
      (real_of_int (tile_x (tileCoords tadsLoadedState)) * 256 * 10000)
      10000 (cv_width exampleCanvas / real (length exampleMatrix)) (310, 250)
      ([exampleTad, wideTad] ! j)"
    unfolding geom by (simp add: far_contains)
  have cell: "cellAt exampleMatrix 2 3 = Some (Some 8)"
    by (simp add: cellAt_def exampleMatrix_def)
  show ?thesis
    using tad_hit_precedence [OF m ts res inv i inside before, of refLib]
      m ts res inv cell
    by (simp add: far_contains fmt_examples pointerFar_def)
qed

text \<open>
  C8 (as stated, refuted). No TADs are loaded and the pointer is over the cell in row 0,
  column 0 of the example matrix, whose value is 0: the handler shows the score 0.00 and
  does not hide the tooltip.
\<close>

theorem zero_cell_reports_score:
  "tads (loaded exampleMatrix) = None \<and>
   matrixData (loaded exampleMatrix) = Some exampleMatrix \<and>
   cellAt exampleMatrix 0 0 = Some (Some 0) \<and>
   handleMouseMove refLib exampleCanvas pointerNear (loaded exampleMatrix) =
     SetTooltip (Visible ''Score: 0.00'' 1 1) \<and>
   handleMouseMove refLib exampleCanvas pointerNear (loaded exampleMatrix) \<noteq>
     SetTooltip Hidden"
proof -
  have "tads (loaded exampleMatrix) = None"
    and "matrixData (loaded exampleMatrix) = Some exampleMatrix"
    by (simp_all add: loaded_eval)
  moreover have "cellAt exampleMatrix 0 0 = Some (Some 0)"
    by (simp add: cellAt_def exampleMatrix_def)
  ultimately show ?thesis
    unfolding hm_cell by simp
qed

text \<open>
  C8 (amended). When the pointer matches no TAD (and the canvas has a width), the handler
  takes the row and column as the floors of the inverted position over the pixel size. It
  hides the tooltip when either index is outside the matrix and when the cell is
  \<^verbatim>\<open>null\<close>; for every number in the cell, zero and negative numbers too, it shows that
  number as a score with two decimals.
\<close>

theorem cell_fallback_rule:
  assumes "matrixData s = Some m" and "m \<noteq> []"
    and "invert (transform s) (clientX ev - cv_left cv, clientY ev - cv_top cv) = Some p"
    and "ps = cv_width cv / real (length m)"
    and "tadHit s ps p = None"
    and "cv_width cv \<noteq> 0"
    and "i = \<lfloor>snd p / ps\<rfloor>" and "j = \<lfloor>fst p / ps\<rfloor>"
  shows
    "(\<not> (0 \<le> i \<and> i < int (length m) \<and> 0 \<le> j \<and> j < int (length m)) \<longrightarrow>
        handleMouseMove lib cv ev s = SetTooltip Hidden) \<and>
     (0 \<le> i \<and> i < int (length m) \<and> 0 \<le> j \<and> j < int (length m) \<longrightarrow>
        cellAt m (nat i) (nat j) = Some None \<longrightarrow>
        handleMouseMove lib cv ev s = SetTooltip Hidden) \<and>
     (\<forall>v. 0 \<le> i \<and> i < int (length m) \<and> 0 \<le> j \<and> j < int (length m) \<longrightarrow>
        cellAt m (nat i) (nat j) = Some (Some v) \<longrightarrow>
        handleMouseMove lib cv ev s =
          SetTooltip (Visible (''Score: '' @ toFixed lib v 2) (pageX ev) (pageY ev)))"
proof -
  have ps0: "ps \<noteq> 0"
    using assms(2,4,6) by simp
  have "handleMouseMove lib cv ev s = cellTooltip lib m ps p ev"
    using handleMouseMove_cell [OF assms(1,2,3)] assms(4,5) by simp
  then show ?thesis
    using ps0 assms(7,8) by (simp add: cellTooltip_def Let_def)
qed

theorem cell_fallback_rule_witness:
  "matrixData (loaded exampleMatrix) = Some exampleMatrix \<and> exampleMatrix \<noteq> [] \<and>
   invert (transform (loaded exampleMatrix))
     (clientX pointerFar - cv_left exampleCanvas, clientY pointerFar - cv_top exampleCanvas) =
     Some (310, 250) \<and>
   tadHit (loaded exampleMatrix) 100 (310, 250) = None \<and>
   cv_width exampleCanvas \<noteq> 0 \<and>
   \<lfloor>snd (310 :: real, 250 :: real) / 100\<rfloor> = 2 \<and>
   \<lfloor>fst (310 :: real, 250 :: real) / 100\<rfloor> = 3 \<and>
   cellAt exampleMatrix 2 3 = Some (Some 8) \<and>
   handleMouseMove refLib exampleCanvas pointerFar (loaded exampleMatrix) =
     SetTooltip (Visible ''Score: 8.00'' 310 250)"
proof -
  have m: "matrixData (loaded exampleMatrix) = Some exampleMatrix" "exampleMatrix \<noteq> []"
    by (simp_all add: loaded_eval exampleMatrix_def)
  have inv: "invert (transform (loaded exampleMatrix))
     (clientX pointerFar - cv_left exampleCanvas, clientY pointerFar - cv_top exampleCanvas) =
     Some (310, 250)"
    by (simp add: loaded_eval invert_def zoomIdentity_def pointerFar_def exampleCanvas_def)
  have ps: "(100::real) = cv_width exampleCanvas / real (length exampleMatrix)"
    by (simp add: exampleCanvas_def exampleMatrix_def)
  have hit: "tadHit (loaded exampleMatrix) 100 (310, 250) = None"
    by (simp add: tadHit_def loaded_eval)
  have w: "cv_width exampleCanvas \<noteq> 0"
    by (simp add: exampleCanvas_def)
  have i: "(2::int) = \<lfloor>snd (310 :: real, 250 :: real) / 100\<rfloor>"
    by simp
  have j: "(3::int) = \<lfloor>fst (310 :: real, 250 :: real) / 100\<rfloor>"
    by simp
  have cell: "cellAt exampleMatrix 2 3 = Some (Some 8)"
    by (simp add: cellAt_def exampleMatrix_def)
  have len: "length exampleMatrix = 4"
    by (simp add: exampleMatrix_def)
  show ?thesis
    using cell_fallback_rule [OF m inv ps hit w i j, of refLib] m inv hit w cell
    by (simp add: len fmt_examples pointerFar_def)
qed

text \<open>
  C9 (as stated, refuted). For the TAD from 0 to 20000 the tooltip reads
  \<^verbatim>\<open>TAD: 0.00 - 20.0k\<close>: the separator has a space on either side, and the numbers are
  formatted with the specifier \<^verbatim>\<open>.3s\<close>, where the axes use \<^verbatim>\<open>.2s\<close> and would print
  \<^verbatim>\<open>0.0\<close> and \<^verbatim>\<open>20k\<close>.
\<close>

theorem tad_tooltip_differs_from_axis_format:
  "handleMouseMove refLib exampleCanvas pointerNear tadsLoadedState =
     SetTooltip (Visible ''TAD: 0.00 - 20.0k'' 1 1) \<and>
   tadTooltipContent refLib exampleTad = ''TAD: 0.00 - 20.0k'' \<and>
   ''TAD: '' @ axisTickFormat refLib (tad_start exampleTad) @ ''-'' @
     axisTickFormat refLib (tad_end exampleTad) = ''TAD: 0.0-20k'' \<and>
   tadTooltipContent refLib exampleTad \<noteq>
     ''TAD: '' @ axisTickFormat refLib (tad_start exampleTad) @ ''-'' @
       axisTickFormat refLib (tad_end exampleTad) \<and>
   d3_format refLib ''.3s'' (tad_end exampleTad) \<noteq> axisTickFormat refLib (tad_end exampleTad)"
proof -
  have ends: "tad_start exampleTad = 0" "tad_end exampleTad = 20000"
    by (simp_all add: exampleTad_def)
  have "d3_format refLib ''.3s'' 20000 = ''20.0k''"
    by (simp add: refLib_def formatRef_def siFormat_def siCoefficient_def siPrefixes_def
        digits.simps Let_def)
  then show ?thesis
    unfolding hm_near ends fmt_examples by simp
qed

text \<open>
  C9 (amended). Whenever the pointer hits a TAD, the tooltip is the text \<^verbatim>\<open>TAD: \<close>, the
  start formatted by d3 with the specifier \<^verbatim>\<open>.3s\<close>, the separator \<^verbatim>\<open> - \<close> and the end
  formatted with \<^verbatim>\<open>.3s\<close>; the TAD is one of the loaded ones. The axis ticks are formatted
  with the specifier \<^verbatim>\<open>.2s\<close>.
\<close>

theorem tad_tooltip_format:
  assumes "matrixData s = Some m" and "m \<noteq> []"
    and "invert (transform s) (clientX ev - cv_left cv, clientY ev - cv_top cv) = Some p"
    and "tadHit s (cv_width cv / real (length m)) p = Some t"
  shows "handleMouseMove lib cv ev s =
      SetTooltip (Visible
        (''TAD: '' @ d3_format lib ''.3s'' (tad_start t) @ '' - '' @
           d3_format lib ''.3s'' (tad_end t))
        (pageX ev) (pageY ev)) \<and>
    (\<exists>ts. tads s = Some ts \<and> t \<in> set ts) \<and>
    axisTickFormat lib = d3_format lib ''.2s''"
proof -
  have "handleMouseMove lib cv ev s =
      SetTooltip (Visible (tadTooltipContent lib t) (pageX ev) (pageY ev))"
    by (rule handleMouseMove_tad [OF assms])
  moreover have "\<exists>ts. tads s = Some ts \<and> t \<in> set ts"
    using assms(4) tadLoop_Some by (fastforce simp: tadHit_def split: option.splits)
  moreover have "axisTickFormat lib = d3_format lib ''.2s''"
    by (rule ext) (simp add: axisTickFormat_def)
  ultimately show ?thesis
    by (simp add: tadTooltipContent_def)
qed

theorem tad_tooltip_format_witness:
  "matrixData tadsLoadedState = Some exampleMatrix \<and> exampleMatrix \<noteq> [] \<and>
   invert (transform tadsLoadedState)
     (clientX pointerNear - cv_left exampleCanvas, clientY pointerNear - cv_top exampleCanvas) =
     Some (1, 1) \<and>
   tadHit tadsLoadedState (cv_width exampleCanvas / real (length exampleMatrix)) (1, 1) =
     Some exampleTad \<and>
   d3_format refLib ''.3s'' (tad_start exampleTad) = ''0.00'' \<and>
   d3_format refLib ''.3s'' (tad_end exampleTad) = ''20.0k'' \<and>
   handleMouseMove refLib exampleCanvas pointerNear tadsLoadedState =
     SetTooltip (Visible ''TAD: 0.00 - 20.0k'' 1 1)"
proof -
  have m: "matrixData tadsLoadedState = Some exampleMatrix" "exampleMatrix \<noteq> []"
    by (simp_all add: tadsLoadedState_eval exampleMatrix_def)
  have inv: "invert (transform tadsLoadedState)
     (clientX pointerNear - cv_left exampleCanvas, clientY pointerNear - cv_top exampleCanvas) =
     Some (1, 1)"
    by (simp add: tadsLoadedState_eval invert_def zoomIdentity_def pointerNear_def
        exampleCanvas_def)
  have hit: "tadHit tadsLoadedState (cv_width exampleCanvas / real (length exampleMatrix))
      (1, 1) = Some exampleTad"
    by (simp add: tadHit_def tadsLoadedState_eval addrA_def resolution_0 exampleCanvas_def
        exampleMatrix_def far_contains)
  have f: "d3_format refLib ''.3s'' (tad_start exampleTad) = ''0.00''"
    "d3_format refLib ''.3s'' (tad_end exampleTad) = ''20.0k''"
    by (simp_all add: refLib_def formatRef_def siFormat_def siCoefficient_def siPrefixes_def
        digits.simps Let_def exampleTad_def)
  show ?thesis
    using tad_tooltip_format [OF m inv hit, of refLib] m inv hit f
    by (simp add: pointerNear_def)
qed

subsection \<open>Annotation fetchers\<close>

text \<open>
  C3 (as stated, refuted). With two TADs loaded, a second TAD search fails with a network
  error: the error message is set, and the TAD collection still holds both TADs.
\<close>

theorem failed_tads_fetch_keeps_overlay:
  "tads tadsLoadedState = Some [exampleTad, wideTad] \<and>
   tads (run refLib [FindTADs, TadsArrive AnnotNetworkError] tadsLoadedState) =
     Some [exampleTad, wideTad] \<and>
   tads (run refLib [FindTADs, TadsArrive AnnotNetworkError] tadsLoadedState) \<noteq> None \<and>
   tads (run refLib [FindTADs, TadsArrive AnnotNetworkError] tadsLoadedState) \<noteq> Some [] \<and>
   error (run refLib [FindTADs, TadsArrive AnnotNetworkError] tadsLoadedState) =
     Some ''Failed to fetch TADs.''"
  by (simp add: tadsLoadedState_eval handleFindTADs_def tadsCatch_def)

text \<open>
  C3 (amended). An annotation fetch that fails (the fetch rejects, the body is not JSON or
  is \<^verbatim>\<open>null\<close>, or the body has a truthy \<^verbatim>\<open>error\<close> field) sets the error message of
  its kind and leaves both overlay collections, the matrix and the status as they were.
\<close>

theorem failed_annotation_fetch_sets_error_only:
  "(annotFailed r \<longrightarrow>
      error (tadsSettled r s) = Some ''Failed to fetch TADs.'' \<and>
      tads (tadsSettled r s) = tads s \<and>
      compartments (tadsSettled r s) = compartments s \<and>
      matrixData (tadsSettled r s) = matrixData s \<and>
      status (tadsSettled r s) = status s) \<and>
   (annotFailed r' \<longrightarrow>
      error (compartmentsSettled r' s) = Some ''Failed to fetch A/B compartments.'' \<and>
      tads (compartmentsSettled r' s) = tads s \<and>
      compartments (compartmentsSettled r' s) = compartments s \<and>
      matrixData (compartmentsSettled r' s) = matrixData s \<and>
      status (compartmentsSettled r' s) = status s)"
proof -
  have "tadsSettled r s = tadsCatch s" if "annotFailed r"
    using that by (cases r) simp_all
  moreover have "compartmentsSettled r' s = compartmentsCatch s" if "annotFailed r'"
    using that by (cases r') simp_all
  ultimately show ?thesis
    by (simp add: tadsCatch_def compartmentsCatch_def)
qed

theorem failed_annotation_fetch_sets_error_only_witness:
  "annotFailed (AnnotErrorField :: tad annotation_response) \<and>
   annotFailed (AnnotJsonNull :: compartment annotation_response) \<and>
   error (tadsSettled AnnotErrorField tadsLoadedState) = Some ''Failed to fetch TADs.'' \<and>
   tads (tadsSettled AnnotErrorField tadsLoadedState) = Some [exampleTad, wideTad] \<and>
   error (compartmentsSettled AnnotJsonNull tadsLoadedState) =
     Some ''Failed to fetch A/B compartments.'' \<and>
   tads (compartmentsSettled AnnotJsonNull tadsLoadedState) = Some [exampleTad, wideTad] \<and>
   compartments (compartmentsSettled AnnotJsonNull tadsLoadedState) = None"
proof -
  have a: "annotFailed (AnnotErrorField :: tad annotation_response)"
    by simp
  have b: "annotFailed (AnnotJsonNull :: compartment annotation_response)"
    by simp
  show ?thesis
    using a b
      failed_annotation_fetch_sets_error_only
        [where r = AnnotErrorField and s = tadsLoadedState and r' = AnnotJsonNull]
    by (simp add: tadsLoadedState_eval)
qed

end
